theory Spec2Isabelle
  imports Main "HOL-Library.AList" "HOL-Library.List_Lexorder" "HOL-Library.Char_ord"
begin

section \<open>Subscription fold engine: data and operations (index.ts)\<close>

text \<open>
  \<^verbatim>\<open>ContractUpdatesSubscription\<close> (models.ts) is a pair of booleans. The fold compares
  its items with \<^verbatim>\<open>except\<close> by object identity (\<^verbatim>\<open>item != except\<close>) and, when no
  \<^verbatim>\<open>except\<close> is given, lets \<^verbatim>\<open>after\<close> be the very object \<^verbatim>\<open>before\<close>. Objects
  therefore live in an explicit store: a reference is a cell number, \<open>top\<close> is the next
  free cell, and an object literal allocates the cell \<open>top\<close>.
\<close>

record ContractUpdatesSubscription =
  state :: bool
  transactions :: bool

type_synonym ref = nat

record heap =
  cells :: "ref \<Rightarrow> ContractUpdatesSubscription"
  top :: ref

record fold_result =
  heap_after :: heap
  before :: ref
  after :: ref

definition alloc :: "ContractUpdatesSubscription \<Rightarrow> heap \<Rightarrow> ref \<times> heap" where
  "alloc v h = (top h, \<lparr>cells = (cells h)(top h := v), top = Suc (top h)\<rparr>)"

definition write_cell :: "ref \<Rightarrow> ContractUpdatesSubscription \<Rightarrow> heap \<Rightarrow> heap" where
  "write_cell r v h = h\<lparr>cells := (cells h)(r := v)\<rparr>"

text \<open>\<^verbatim>\<open>target.state ||= item.state\<close> and \<^verbatim>\<open>target.transactions ||= item.transactions\<close>.\<close>

definition or_state :: "ref \<Rightarrow> ref \<Rightarrow> heap \<Rightarrow> heap" where
  "or_state target item h =
     write_cell target
       ((cells h target)\<lparr>state := state (cells h target) \<or> state (cells h item)\<rparr>) h"

definition or_transactions :: "ref \<Rightarrow> ref \<Rightarrow> heap \<Rightarrow> heap" where
  "or_transactions target item h =
     write_cell target
       ((cells h target)
          \<lparr>transactions := transactions (cells h target) \<or> transactions (cells h item)\<rparr>) h"

text \<open>
  The \<^verbatim>\<open>for (const item of subscriptions)\<close> loop of \<^verbatim>\<open>foldSubscriptions\<close>: \<open>b\<close> and \<open>a\<close>
  are the references held by \<^verbatim>\<open>before\<close> and \<^verbatim>\<open>after\<close>. The first test is the
  \<^verbatim>\<open>break\<close>.
\<close>

fun fold_loop :: "ref \<Rightarrow> ref \<Rightarrow> ref option \<Rightarrow> ref list \<Rightarrow> heap \<Rightarrow> heap" where
  "fold_loop b a except [] h = h"
| "fold_loop b a except (item # rest) h =
     (if transactions (cells h a) \<and> state (cells h a) then h
      else
        let h1 = or_state b item h;
            h2 = or_transactions b item h1;
            h3 = (if Some item \<noteq> except
                  then or_transactions a item (or_state a item h2)
                  else h2)
        in fold_loop b a except rest h3)"

text \<open>
  \<^verbatim>\<open>const before = {state: false, transactions: false};\<close>
  \<^verbatim>\<open>const after = except != null ? Object.assign({}, before) : before;\<close>
\<close>

definition foldSubscriptions :: "heap \<Rightarrow> ref list \<Rightarrow> ref option \<Rightarrow> fold_result" where
  "foldSubscriptions h subscriptions except =
     (let (b, h1) = alloc \<lparr>state = False, transactions = False\<rparr> h;
          (a, h2) = (if except \<noteq> None then alloc (cells h1 b) h1 else (b, h1))
      in \<lparr>heap_after = fold_loop b a except subscriptions h2, before = b, after = a\<rparr>)"

text \<open>A store holding exactly the given objects, in cells \<open>0, 1, ...\<close>.\<close>

definition heap_of :: "ContractUpdatesSubscription list \<Rightarrow> heap" where
  "heap_of objs =
     \<lparr>cells = (\<lambda>r. if r < length objs then objs ! r
                   else \<lparr>state = False, transactions = False\<rparr>),
      top = length objs\<rparr>"


text \<open>Pointwise order on flag pairs: every flag set in \<open>x\<close> is set in \<open>y\<close>.\<close>

definition below :: "ContractUpdatesSubscription \<Rightarrow> ContractUpdatesSubscription \<Rightarrow> bool" where
  "below x y = ((state x \<longrightarrow> state y) \<and> (transactions x \<longrightarrow> transactions y))"


section \<open>Transaction merge utility: data and operations (models.ts, index.ts)\<close>

text \<open>
  The records of models.ts. An \<^verbatim>\<open>Addr\<close> is kept in its string form. The field
  \<^verbatim>\<open>Transaction.id\<close> is \<open>tx_id\<close> and \<^verbatim>\<open>Message.value\<close> is \<open>msg_value\<close>, since \<open>id\<close> is a
  constant of HOL and \<open>value\<close> a command of Isabelle.
\<close>

datatype TransactionsBatchType = Old | New

record TransactionsBatchInfo =
  minLt :: string
  maxLt :: string
  batchType :: TransactionsBatchType

record TransactionId =
  lt :: string
  hash :: string

datatype AccountStatus = Uninit | Frozen | Active | Nonexist

record Message =
  src :: "string option"
  dst :: "string option"
  msg_value :: string
  bounce :: bool
  bounced :: bool
  body :: "string option"
  bodyHash :: "string option"

record Transaction =
  tx_id :: TransactionId
  prevTransactionId :: "TransactionId option"
  createdAt :: int
  aborted :: bool
  origStatus :: AccountStatus
  endStatus :: AccountStatus
  totalFees :: string
  inMessage :: Message
  outMessages :: "Message list"

text \<open>
  \<^verbatim>\<open>String.prototype.localeCompare\<close> is a built-in of the language, called here with no
  locale and no options. A logical time is a string of ASCII decimal digits; on such
  strings the default collation decides by the first position where the two strings
  differ and puts a proper prefix before its extensions: it does not read the strings as
  numbers. The model is that comparison, character by character on character codes; the
  result is negative, zero or positive.
\<close>

fun localeCompare :: "string \<Rightarrow> string \<Rightarrow> int" where
  "localeCompare [] [] = 0"
| "localeCompare [] (y # ys) = - 1"
| "localeCompare (x # xs) [] = 1"
| "localeCompare (x # xs) (y # ys) =
     (if (of_char x :: nat) < of_char y then - 1
      else if (of_char y :: nat) < of_char x then 1
      else localeCompare xs ys)"

text \<open>
  The \<^verbatim>\<open>while\<close> loop of \<^verbatim>\<open>mergeTransactions\<close>, from the index \<open>i\<close> on; it returns the
  final \<open>i\<close>.
\<close>

function skip_indices :: "Transaction list \<Rightarrow> string \<Rightarrow> nat \<Rightarrow> nat" where
  "skip_indices knownTransactions max_lt i =
     (if i < length knownTransactions \<and>
         localeCompare (lt (tx_id (knownTransactions ! i))) max_lt \<ge> 0
      then skip_indices knownTransactions max_lt (i + 1)
      else i)"
  by pat_completeness auto
termination
  by (relation "measure (\<lambda>(known, m, i). length known - i)") auto

declare skip_indices.simps [simp del]

text \<open>
  \<^verbatim>\<open>xs.splice(start, 0, ...items)\<close> for \<open>start \<le> length xs\<close>; the array is returned
  updated.
\<close>

definition splice :: "'a list \<Rightarrow> nat \<Rightarrow> 'a list \<Rightarrow> 'a list" where
  "splice xs start items = take start xs @ items @ drop start xs"

definition mergeTransactions ::
  "Transaction list \<Rightarrow> Transaction list \<Rightarrow> TransactionsBatchInfo \<Rightarrow> Transaction list" where
  "mergeTransactions knownTransactions newTransactions info =
     (if batchType info = Old then knownTransactions @ newTransactions
      else if length knownTransactions = 0 then knownTransactions @ newTransactions
      else splice knownTransactions (skip_indices knownTransactions (maxLt info) 0)
             newTransactions)"

text \<open>A transaction with the given logical time and no other content, for examples.\<close>

definition tx :: "string \<Rightarrow> Transaction" where
  "tx l =
     \<lparr>tx_id = \<lparr>lt = l, hash = ''''\<rparr>, prevTransactionId = None, createdAt = 0,
      aborted = False, origStatus = Active, endStatus = Active, totalFees = ''0'',
      inMessage = \<lparr>src = None, dst = None, msg_value = ''0'', bounce = False,
                   bounced = False, body = None, bodyHash = None\<rparr>,
      outMessages = []\<rparr>"


section \<open>ABI token codec: data and operations (models.ts)\<close>

text \<open>
  Run-time values. \<^verbatim>\<open>TokenValue\<close> is a boolean, a string, a number, an \<^verbatim>\<open>Address\<close>, an
  object with string keys, an array, or an array of two-element arrays (a map);
  \<^verbatim>\<open>RawTokenValue\<close> is the same with strings for addresses. \<open>Undefined\<close> is what reading
  an absent property gives. Numbers pass through the codec untouched and are kept as
  integers. An object is the list of its own properties in enumeration order, which is
  insertion order: property names here are ABI names, taken not to be array indices and
  not to be members of \<^verbatim>\<open>Object.prototype\<close>. The types exclude \<^verbatim>\<open>null\<close>, and it is not
  modelled.
\<close>

datatype error = TypeError | UnknownEvent string | ProviderRejected string

datatype jsval =
    Undefined
  | Bool bool
  | Str string
  | Num int
  | Address jsval
  | Arr "jsval list"
  | Obj "(string \<times> jsval) list"

text \<open>
  Modelled from the spec: the class \<^verbatim>\<open>Address\<close> of utils.ts, which is not among the
  sources. It is constructed from a string and \<^verbatim>\<open>toString()\<close> returns that string
  unchanged: \<open>Address v\<close> is the instance constructed from \<open>v\<close>.
\<close>

datatype AbiParam =
  AbiParam (name: string) (type: string) (components: "AbiParam list option")

text \<open>\<^verbatim>\<open>s.startsWith(p)\<close>, \<^verbatim>\<open>s.endsWith(p)\<close> and \<^verbatim>\<open>s.split(sep)\<close> for a one-character \<open>sep\<close>.\<close>

definition startsWith :: "string \<Rightarrow> string \<Rightarrow> bool" where
  "startsWith s p = (take (length p) s = p)"

definition endsWith :: "string \<Rightarrow> string \<Rightarrow> bool" where
  "endsWith s p = (length p \<le> length s \<and> drop (length s - length p) s = p)"

fun split :: "string \<Rightarrow> char \<Rightarrow> string list" where
  "split [] sep = [[]]"
| "split (c # cs) sep =
     (if c = sep then [] # split cs sep
      else (case split cs sep of [] \<Rightarrow> [[c]] | p # ps \<Rightarrow> (c # p) # ps))"

text \<open>
  \<^verbatim>\<open>result[k] = v\<close> on an object: an existing property keeps its place, a new one goes
  last. \<^verbatim>\<open>token[k]\<close>: reading a property of \<^verbatim>\<open>undefined\<close> throws, an absent property
  reads as \<^verbatim>\<open>undefined\<close>.
\<close>

definition set_property ::
  "(string \<times> jsval) list \<Rightarrow> string \<Rightarrow> jsval \<Rightarrow> (string \<times> jsval) list" where
  "set_property props k v = AList.update k v props"

fun get_property :: "jsval \<Rightarrow> string \<Rightarrow> error + jsval" where
  "get_property Undefined k = Inl TypeError"
| "get_property (Obj props) k =
     Inr (case map_of props k of None \<Rightarrow> Undefined | Some v \<Rightarrow> v)"
| "get_property v k = Inr Undefined"

text \<open>
  \<^verbatim>\<open>for (const item of token)\<close>: an array gives its elements, a string its characters,
  anything else is not iterable. \<open>element xs i\<close> is the \<open>i\<close>-th variable of a destructuring
  \<^verbatim>\<open>[key, value]\<close>.
\<close>

fun iterate :: "jsval \<Rightarrow> error + jsval list" where
  "iterate (Arr items) = Inr items"
| "iterate (Str s) = Inr (map (\<lambda>c. Str [c]) s)"
| "iterate v = Inl TypeError"

definition element :: "jsval list \<Rightarrow> nat \<Rightarrow> jsval" where
  "element xs i = (if i < length xs then xs ! i else Undefined)"

text \<open>The measure of the recursion of \<^verbatim>\<open>parseTokenValue\<close>: the type strings of a parameter.\<close>

fun msize :: "AbiParam \<Rightarrow> nat" where
  "msize (AbiParam n t cs) =
     Suc (length t + (case cs of None \<Rightarrow> 0 | Some l \<Rightarrow> Suc (sum_list (map msize l))))"

lemma msize_sel:
  "msize p = Suc (length (type p) +
     (case components p of None \<Rightarrow> 0 | Some l \<Rightarrow> Suc (sum_list (map msize l))))"
  by (cases p) simp

lemma split_lengths:
  "sum_list (map length (split s sep)) + length (split s sep) = Suc (length s)"
  by (induction s) (auto split: list.splits)

lemma split_parts_shorter:
  assumes "split s sep = a # b # rest"
  shows "length a + length b < length s"
  using split_lengths [of s sep] assms by auto

text \<open>
  \<^verbatim>\<open>parseTokenValue\<close>, with its three loops: \<open>parse_items\<close> over the items of an array,
  \<open>parse_components\<close> over the components of a tuple (building \<^verbatim>\<open>result\<close>), and
  \<open>parse_entries\<close> over the pairs of a map. A thrown exception is \<open>Inl\<close>.
\<close>

function parseTokenValue :: "AbiParam \<Rightarrow> jsval \<Rightarrow> error + jsval"
  and parse_items :: "AbiParam \<Rightarrow> jsval list \<Rightarrow> error + jsval list"
  and parse_components ::
    "AbiParam list \<Rightarrow> jsval \<Rightarrow> (string \<times> jsval) list \<Rightarrow> error + (string \<times> jsval) list"
  and parse_entries :: "string \<Rightarrow> string \<Rightarrow> jsval list \<Rightarrow> error + jsval list"
where
  "parseTokenValue param token =
     (if \<not> startsWith (type param) ''map'' then
        let rawType = (if endsWith (type param) ''[]''
                       then take (length (type param) - 2) (type param) else type param);
            isArray = (rawType \<noteq> type param)
        in if isArray then
             (case iterate token of
                Inl e \<Rightarrow> Inl e
              | Inr items \<Rightarrow>
                  (case parse_items (AbiParam (name param) rawType (components param)) items of
                     Inl e \<Rightarrow> Inl e
                   | Inr result \<Rightarrow> Inr (Arr result)))
           else if rawType = ''tuple'' then
             (case components param of
                None \<Rightarrow> Inr (Obj [])
              | Some cs \<Rightarrow>
                  (case parse_components cs token [] of
                     Inl e \<Rightarrow> Inl e
                   | Inr result \<Rightarrow> Inr (Obj result)))
           else if rawType = ''address'' then Inr (Address token)
           else Inr token
      else
        (case split (type param) (CHR '','') of
           keyPart # valuePart # rest \<Rightarrow>
             (case iterate token of
                Inl e \<Rightarrow> Inl e
              | Inr entries \<Rightarrow>
                  (case parse_entries (drop 4 keyPart) (butlast valuePart) entries of
                     Inl e \<Rightarrow> Inl e
                   | Inr result \<Rightarrow> Inr (Arr result)))
         | _ \<Rightarrow> Inl TypeError))"
| "parse_items rawParam [] = Inr []"
| "parse_items rawParam (item # items) =
     (case parseTokenValue rawParam item of
        Inl e \<Rightarrow> Inl e
      | Inr v \<Rightarrow>
          (case parse_items rawParam items of
             Inl e \<Rightarrow> Inl e
           | Inr vs \<Rightarrow> Inr (v # vs)))"
| "parse_components [] token result = Inr result"
| "parse_components (component # cs) token result =
     (case get_property token (name component) of
        Inl e \<Rightarrow> Inl e
      | Inr raw \<Rightarrow>
          (case parseTokenValue component raw of
             Inl e \<Rightarrow> Inl e
           | Inr v \<Rightarrow> parse_components cs token (set_property result (name component) v)))"
| "parse_entries keyType valueType [] = Inr []"
| "parse_entries keyType valueType (entry # entries) =
     (case iterate entry of
        Inl e \<Rightarrow> Inl e
      | Inr kv \<Rightarrow>
          (case parseTokenValue (AbiParam [] keyType None) (element kv 0) of
             Inl e \<Rightarrow> Inl e
           | Inr k \<Rightarrow>
               (case parseTokenValue (AbiParam [] valueType None) (element kv 1) of
                  Inl e \<Rightarrow> Inl e
                | Inr v \<Rightarrow>
                    (case parse_entries keyType valueType entries of
                       Inl e \<Rightarrow> Inl e
                     | Inr result \<Rightarrow> Inr (Arr [k, v] # result)))))"
  by pat_completeness auto
termination
proof (relation "measures
   [\<lambda>x. case x of
        Inl (Inl (param, token)) \<Rightarrow> 2 * msize param
      | Inl (Inr (rawParam, items)) \<Rightarrow> 2 * msize rawParam + 1
      | Inr (Inl (cs, token, result)) \<Rightarrow> 2 * sum_list (map msize cs) + 1
      | Inr (Inr (keyType, valueType, entries)) \<Rightarrow>
          2 * (length keyType + length valueType) + 3,
    \<lambda>x. case x of
        Inl (Inl (param, token)) \<Rightarrow> 0
      | Inl (Inr (rawParam, items)) \<Rightarrow> length items
      | Inr (Inl (cs, token, result)) \<Rightarrow> 0
      | Inr (Inr (keyType, valueType, entries)) \<Rightarrow> length entries]", goal_cases)
  case (4 param token keyPart ps valuePart rest entries)
  then show ?case
    using split_parts_shorter [of "type param" "CHR '',''" keyPart valuePart rest]
    by (simp add: msize_sel)
qed (auto simp: msize_sel endsWith_def split: if_splits)

declare parseTokenValue.simps [simp del]

text \<open>
  \<^verbatim>\<open>serializeTokenValue\<close>: an \<^verbatim>\<open>Address\<close> gives \<^verbatim>\<open>toString()\<close>, an array is walked, any
  other object is rebuilt property by property, anything else is returned as it is.
\<close>

fun serializeTokenValue :: "jsval \<Rightarrow> jsval" where
  "serializeTokenValue (Address a) = a"
| "serializeTokenValue (Arr items) = Arr (map serializeTokenValue items)"
| "serializeTokenValue (Obj props) =
     Obj (foldl (\<lambda>result kv. set_property result (fst kv) (serializeTokenValue (snd kv)))
            [] props)"
| "serializeTokenValue v = v"

definition serializeTokensObject :: "jsval \<Rightarrow> jsval" where
  "serializeTokensObject object = serializeTokenValue object"

text \<open>The loop of \<^verbatim>\<open>parseTokensObject\<close>, building \<^verbatim>\<open>result\<close>.\<close>

fun parseTokensObject_loop ::
  "AbiParam list \<Rightarrow> jsval \<Rightarrow> (string \<times> jsval) list \<Rightarrow> error + (string \<times> jsval) list"
where
  "parseTokensObject_loop [] object result = Inr result"
| "parseTokensObject_loop (param # params) object result =
     (case get_property object (name param) of
        Inl e \<Rightarrow> Inl e
      | Inr raw \<Rightarrow>
          (case parseTokenValue param raw of
             Inl e \<Rightarrow> Inl e
           | Inr v \<Rightarrow>
               parseTokensObject_loop params object (set_property result (name param) v)))"

definition parseTokensObject :: "AbiParam list \<Rightarrow> jsval \<Rightarrow> error + jsval" where
  "parseTokensObject params object =
     (case parseTokensObject_loop params object [] of
        Inl e \<Rightarrow> Inl e
      | Inr result \<Rightarrow> Inr (Obj result))"





section \<open>Provider subscription manager: data and operations (index.ts)\<close>

text \<open>
  The two private maps of \<^verbatim>\<open>ProviderRpcClient\<close>. The outer objects are keyed by event
  name and by address, and an absent key (\<^verbatim>\<open>undefined\<close>) differs from a key holding an
  empty object. The inner objects are keyed by subscription id; ids are array indices, so
  such an object enumerates its properties in ascending order of id: it is the list of
  its properties in that order. A registered listener is the closure
  \<^verbatim>\<open>(data) => subscription.notify(data)\<close> of the subscription with that id.
\<close>

datatype listener = Notify nat

record Manager =
  subscriptions :: "string \<Rightarrow> (nat \<times> listener) list option"
  contractSubscriptions :: "string \<Rightarrow> (nat \<times> ContractUpdatesSubscription) list option"



















section \<open>Subscription fold engine: properties\<close>

lemma fold_loop_after_state:
  "a \<noteq> b \<Longrightarrow> a \<notin> set S \<Longrightarrow> b \<notin> set S \<Longrightarrow>
   state (cells (fold_loop b a ex S h) a) =
     (state (cells h a) \<or> (\<exists>r\<in>set S. Some r \<noteq> ex \<and> state (cells h r)))"
proof (induction S arbitrary: h)
  case Nil
  then show ?case by simp
next
  case (Cons item rest)
  show ?case
  proof (cases "transactions (cells h a) \<and> state (cells h a)")
    case True
    then show ?thesis by simp
  next
    case False
    then show ?thesis using Cons
      by (auto simp: Let_def or_state_def or_transactions_def write_cell_def)
  qed
qed

lemma fold_loop_after_transactions:
  "a \<noteq> b \<Longrightarrow> a \<notin> set S \<Longrightarrow> b \<notin> set S \<Longrightarrow>
   transactions (cells (fold_loop b a ex S h) a) =
     (transactions (cells h a) \<or> (\<exists>r\<in>set S. Some r \<noteq> ex \<and> transactions (cells h r)))"
proof (induction S arbitrary: h)
  case Nil
  then show ?case by simp
next
  case (Cons item rest)
  show ?case
  proof (cases "transactions (cells h a) \<and> state (cells h a)")
    case True
    then show ?thesis by simp
  next
    case False
    then show ?thesis using Cons
      by (auto simp: Let_def or_state_def or_transactions_def write_cell_def)
  qed
qed

lemma fold_loop_below:
  "a \<notin> set S \<Longrightarrow> b \<notin> set S \<Longrightarrow> below (cells h a) (cells h b) \<Longrightarrow>
   below (cells (fold_loop b a ex S h) a) (cells (fold_loop b a ex S h) b)"
proof (induction S arbitrary: h)
  case Nil
  then show ?case by simp
next
  case (Cons item rest)
  show ?case
  proof (cases "transactions (cells h a) \<and> state (cells h a)")
    case True
    then show ?thesis using Cons.prems by simp
  next
    case False
    then show ?thesis using Cons
      by (auto simp: Let_def or_state_def or_transactions_def write_cell_def below_def)
  qed
qed

lemma fresh_not_in:
  assumes "\<forall>r\<in>set S. r < top h"
  shows "top h \<notin> set S" and "Suc (top h) \<notin> set S"
  using assms by auto

text \<open>
  C4. Let every item of the iterable \<open>S\<close> be an object of the store, and let \<open>e\<close> be one
  of them. Then the \<^verbatim>\<open>after\<close> returned by \<^verbatim>\<open>foldSubscriptions(S, e)\<close> has as its state flag
  the disjunction of the state flags of the items of \<open>S\<close> other than \<open>e\<close>, and as its
  transactions flag the disjunction of their transactions flags, wherever \<open>e\<close> stands in \<open>S\<close>
  and although the loop stops early once both flags of \<^verbatim>\<open>after\<close> are set. Items are
  compared by identity, so \<open>removeAll e S\<close> removes the object \<open>e\<close> and keeps every other
  object, also one with the same two flags.
\<close>

theorem foldSubscriptions_after_is_or_of_others:
  assumes "e \<in> set S" and "\<forall>r\<in>set S. r < top h"
  shows "(let res = foldSubscriptions h S (Some e); aft = cells (heap_after res) (after res)
          in state aft = (\<exists>r\<in>set (removeAll e S). state (cells h r)) \<and>
             transactions aft = (\<exists>r\<in>set (removeAll e S). transactions (cells h r)))"
proof -
  let ?b = "top h" and ?a = "Suc (top h)"
  let ?h2 = "\<lparr>cells = (cells h)(?b := \<lparr>state = False, transactions = False\<rparr>,
                                 ?a := \<lparr>state = False, transactions = False\<rparr>),
             top = Suc ?a\<rparr>"
  have res: "foldSubscriptions h S (Some e) =
      \<lparr>heap_after = fold_loop ?b ?a (Some e) S ?h2, before = ?b, after = ?a\<rparr>"
    by (simp add: foldSubscriptions_def alloc_def)
  have nb: "?b \<notin> set S" and na: "?a \<notin> set S"
    using fresh_not_in [OF assms(2)] by simp_all
  have same: "\<And>r. r \<in> set S \<Longrightarrow> cells ?h2 r = cells h r"
    using na nb by auto
  have st: "state (cells (fold_loop ?b ?a (Some e) S ?h2) ?a) =
      (\<exists>r\<in>set S. r \<noteq> e \<and> state (cells h r))"
    using fold_loop_after_state [of ?a ?b S "Some e" ?h2] na nb same by auto
  have tr: "transactions (cells (fold_loop ?b ?a (Some e) S ?h2) ?a) =
      (\<exists>r\<in>set S. r \<noteq> e \<and> transactions (cells h r))"
    using fold_loop_after_transactions [of ?a ?b S "Some e" ?h2] na nb same by auto
  show ?thesis
    unfolding res Let_def using st tr by auto
qed

text \<open>
  Three listeners \<open>{state}\<close>, \<open>{state, transactions}\<close>, \<open>{}\<close>; excluding the second leaves
  state set and transactions clear.
\<close>

theorem foldSubscriptions_after_is_or_of_others_witness:
  "(let h = heap_of [\<lparr>state = True, transactions = False\<rparr>,
                     \<lparr>state = True, transactions = True\<rparr>,
                     \<lparr>state = False, transactions = False\<rparr>];
        res = foldSubscriptions h [0, 1, 2] (Some 1);
        aft = cells (heap_after res) (after res)
    in state aft \<and> \<not> transactions aft)"
  using foldSubscriptions_after_is_or_of_others [of 1 "[0, 1, 2]"
      "heap_of [\<lparr>state = True, transactions = False\<rparr>,
                \<lparr>state = True, transactions = True\<rparr>,
                \<lparr>state = False, transactions = False\<rparr>]"]
  by (simp add: heap_of_def Let_def)

text \<open>
  C7, as stated, at the empty iterable: with no \<^verbatim>\<open>except\<close>, writing through the returned
  \<^verbatim>\<open>after\<close> changes what the returned \<^verbatim>\<open>before\<close> reads, so the two do not have
  independent storage.
\<close>

theorem foldSubscriptions_no_except_shared_counterexample:
  "state (cells (write_cell (after (foldSubscriptions (heap_of []) [] None))
                   \<lparr>state = True, transactions = True\<rparr>
                   (heap_after (foldSubscriptions (heap_of []) [] None)))
            (before (foldSubscriptions (heap_of []) [] None)))
   \<noteq> state (cells (heap_after (foldSubscriptions (heap_of []) [] None))
               (before (foldSubscriptions (heap_of []) [] None)))"
  by (simp add: foldSubscriptions_def alloc_def heap_of_def write_cell_def)

text \<open>
  C7, amended. With no \<^verbatim>\<open>except\<close> the returned \<^verbatim>\<open>after\<close> is the same object as the
  returned \<^verbatim>\<open>before\<close>: the two read the same flags, and a value written through
  \<^verbatim>\<open>after\<close> is read back through \<^verbatim>\<open>before\<close>. The copy that gives independent storage
  is made only when an \<^verbatim>\<open>except\<close> is given.
\<close>

theorem foldSubscriptions_no_except_same_object:
  "(let res = foldSubscriptions h S None
    in after res = before res \<and>
       cells (heap_after res) (after res) = cells (heap_after res) (before res) \<and>
       cells (write_cell (after res) v (heap_after res)) (before res) = v) \<and>
   after (foldSubscriptions h S (Some e)) \<noteq> before (foldSubscriptions h S (Some e))"
  by (simp add: foldSubscriptions_def alloc_def Let_def write_cell_def)

text \<open>
  C9. Let every item of the iterable \<open>S\<close> be an object of the store. For every optional
  \<^verbatim>\<open>except\<close>, the returned pair satisfies: \<^verbatim>\<open>after.state\<close> implies \<^verbatim>\<open>before.state\<close>, and
  \<^verbatim>\<open>after.transactions\<close> implies \<^verbatim>\<open>before.transactions\<close>.
\<close>

theorem foldSubscriptions_after_below_before:
  assumes "\<forall>r\<in>set S. r < top h"
  shows "(let res = foldSubscriptions h S ex;
              bef = cells (heap_after res) (before res);
              aft = cells (heap_after res) (after res)
          in (state aft \<longrightarrow> state bef) \<and> (transactions aft \<longrightarrow> transactions bef))"
proof (cases ex)
  case None
  then show ?thesis by (simp add: foldSubscriptions_def alloc_def Let_def)
next
  case (Some e)
  let ?b = "top h" and ?a = "Suc (top h)"
  let ?h2 = "\<lparr>cells = (cells h)(?b := \<lparr>state = False, transactions = False\<rparr>,
                                 ?a := \<lparr>state = False, transactions = False\<rparr>),
             top = Suc ?a\<rparr>"
  have res: "foldSubscriptions h S ex =
      \<lparr>heap_after = fold_loop ?b ?a ex S ?h2, before = ?b, after = ?a\<rparr>"
    using Some by (simp add: foldSubscriptions_def alloc_def)
  have nb: "?b \<notin> set S" and na: "?a \<notin> set S"
    using fresh_not_in [OF assms] by simp_all
  have "below (cells ?h2 ?a) (cells ?h2 ?b)"
    by (simp add: below_def)
  then have "below (cells (fold_loop ?b ?a ex S ?h2) ?a) (cells (fold_loop ?b ?a ex S ?h2) ?b)"
    using fold_loop_below [OF na nb] by blast
  then show ?thesis
    unfolding res Let_def by (simp add: below_def)
qed

text \<open>
  Two listeners \<open>{state}\<close> and \<open>{transactions}\<close>, the second excluded: \<^verbatim>\<open>before\<close> has both
  flags, \<^verbatim>\<open>after\<close> only state.
\<close>

theorem foldSubscriptions_after_below_before_witness:
  "(let res = foldSubscriptions (heap_of [\<lparr>state = True, transactions = False\<rparr>,
                                          \<lparr>state = False, transactions = True\<rparr>])
                [0, 1] (Some 1);
        bef = cells (heap_after res) (before res);
        aft = cells (heap_after res) (after res)
    in state aft \<and> state bef \<and> \<not> transactions aft \<and> transactions bef)"
  using foldSubscriptions_after_below_before [of "[0, 1]"
      "heap_of [\<lparr>state = True, transactions = False\<rparr>, \<lparr>state = False, transactions = True\<rparr>]"
      "Some 1"]
  by (simp add: heap_of_def foldSubscriptions_def alloc_def Let_def or_state_def
      or_transactions_def write_cell_def)


section \<open>Transaction merge utility: properties\<close>






text \<open>
  C3. The call of the claim, evaluated: known logical times \<open>20, 19, 18, 5\<close>, incoming
  \<open>11, 10\<close>, \<^verbatim>\<open>maxLt = "11"\<close>. The string \<open>5\<close> is greater than the string \<open>11\<close>, so the loop
  steps over it and the batch is appended after it.
\<close>

theorem mergeTransactions_spec_example:
  "map (lt \<circ> tx_id)
     (mergeTransactions [tx ''20'', tx ''19'', tx ''18'', tx ''5''] [tx ''11'', tx ''10'']
        \<lparr>minLt = ''10'', maxLt = ''11'', batchType = New\<rparr>)
   = [''20'', ''19'', ''18'', ''5'', ''11'', ''10'']"
  by code_simp


section \<open>ABI token codec: properties\<close>















text \<open>What the other declared types give for a missing field.\<close>

lemma parseTokensObject_missing_other_types:
  "parseTokensObject [AbiParam ''a'' ''map(uint8,bool)'' None] (Obj []) = Inl TypeError"
  "parseTokensObject [AbiParam ''a'' ''tuple'' (Some [AbiParam ''x'' ''bool'' None])] (Obj [])
     = Inl TypeError"
  "parseTokensObject [AbiParam ''a'' ''tuple'' None] (Obj []) = Inr (Obj [(''a'', Obj [])])"
  "parseTokensObject [AbiParam ''a'' ''address'' None] (Obj [])
     = Inr (Obj [(''a'', Address Undefined)])"
  by code_simp+




text \<open>
  C5. A schema with one entry \<open>m\<close> of type \<^verbatim>\<open>map(uint8,tuple)\<close> whose tuple has the
  component \<open>x : uint8\<close>, and the value \<open>{m: [["1", {x: "5"}]]}\<close>, of the type
  \<^verbatim>\<open>InputTokenValue\<close> and \<^verbatim>\<open>OutputTokenValue\<close> give to that entry, with no \<^verbatim>\<open>Address\<close> in
  it. Serialization leaves the value as it is; parsing it back loses the field \<open>x\<close>: the
  map branch of \<^verbatim>\<open>parseTokenValue\<close> builds the descriptor of the values without
  \<^verbatim>\<open>components\<close>, where the array branch passes \<^verbatim>\<open>param.components\<close> on.
\<close>

theorem codec_roundtrip_map_of_tuples:
  "serializeTokensObject (Obj [(''m'', Arr [Arr [Str ''1'', Obj [(''x'', Str ''5'')]]])])
     = Obj [(''m'', Arr [Arr [Str ''1'', Obj [(''x'', Str ''5'')]]])] \<and>
   parseTokensObject
     [AbiParam ''m'' ''map(uint8,tuple)'' (Some [AbiParam ''x'' ''uint8'' None])]
     (serializeTokensObject (Obj [(''m'', Arr [Arr [Str ''1'', Obj [(''x'', Str ''5'')]]])]))
     = Inr (Obj [(''m'', Arr [Arr [Str ''1'', Obj []]])]) \<and>
   parseTokensObject
     [AbiParam ''m'' ''tuple[]'' (Some [AbiParam ''x'' ''uint8'' None])]
     (serializeTokensObject (Obj [(''m'', Arr [Obj [(''x'', Str ''5'')]])]))
     = Inr (Obj [(''m'', Arr [Obj [(''x'', Str ''5'')]])])"
  by code_simp


section \<open>Provider subscription manager: properties\<close>














end
